theory Spec2Isabelle
  imports Complex_Main "HOL-Library.Sublist"
begin

section \<open>The elasticity drivers of \<^verbatim>\<open>elastic_solver.py\<close>\<close>

text \<open>
  The module defines two driver functions, \<^verbatim>\<open>solve_elasticity_devoir\<close> and
  \<^verbatim>\<open>solve_elasticity_devoir_force\<close>. Both are straight-line code over three libraries:
  the mesh generator \<^verbatim>\<open>generate_mesh_with_crack\<close>, the finite-element library (function
  spaces, entity and dof location, mesh tags, the linear problem, assembly) and the
  symbolic weak-form language in which the forms are written.

  The embedding keeps that division:
  \<^item> Python floats are read as \<open>real\<close>; the only arithmetic of the drivers is the pair of
    Lame constants, and float division by zero raises \<^verbatim>\<open>ZeroDivisionError\<close>;
  \<^item> objects owned by the libraries (mesh, function space, facet and dof arrays, mesh
    tags, the problem, the solution, the assembled scalar) are opaque values of a type
    \<open>'o\<close>;
  \<^item> the symbolic layer builds terms: its operators, the measures, the constants and the
    Dirichlet condition objects are constructors of datatypes, recorded as the code
    applies them; building such a value is taken to succeed and to leave the library
    state alone;
  \<^item> every call that computes inside a library goes through an environment \<open>ext\<close>: it
    reads and changes a library state \<open>'w\<close>, returns an object or raises an exception
    \<open>'e\<close>, and is logged, with what it returned, in the trace of the run.
\<close>

subsection \<open>Values handed to the libraries\<close>

text \<open>The coordinate array \<^verbatim>\<open>x\<close> of a marker: \<^verbatim>\<open>x[0]\<close>, \<^verbatim>\<open>x[1]\<close>, \<^verbatim>\<open>x[2]\<close> of one point.\<close>

type_synonym coords = "nat \<Rightarrow> real"

text \<open>\<^verbatim>\<open>V.sub(i)\<close>: the view of component \<open>i\<close> of the function space \<open>V\<close>.\<close>

datatype 'o subspace = Sub 'o nat

text \<open>\<^verbatim>\<open>fem.dirichletbc(value, dofs, V)\<close>.\<close>

datatype 'o bc = Dirichletbc real 'o "'o subspace"

text \<open>
  \<^verbatim>\<open>ufl.Measure(integral_type, domain=, subdomain_data=)\<close>; the last field is the
  subdomain id, set by calling the measure: \<^verbatim>\<open>ds(1)\<close>.
\<close>

datatype 'o measure = Measure string "'o option" "'o option" "nat option"

fun measure_call :: "'o measure \<Rightarrow> nat \<Rightarrow> 'o measure" where
  "measure_call (Measure t d sd _) i = Measure t d sd (Some i)"

text \<open>
  Expressions of the symbolic layer. \<open>Coefficient\<close> is a finite-element function used in an
  expression (the solution \<^verbatim>\<open>uh\<close>), \<open>Constant\<close> is \<^verbatim>\<open>fem.Constant(msh, value)\<close>,
  \<open>FloatValue\<close> a Python float that meets an expression in a product.
\<close>

datatype 'o ufl =
    TrialFunction 'o
  | TestFunction 'o
  | Coefficient 'o
  | Constant 'o "real list"
  | FloatValue real
  | Identity nat
  | Grad "'o ufl"
  | Sym "'o ufl"
  | Tr "'o ufl"
  | Inner "'o ufl" "'o ufl"
  | Dot "'o ufl" "'o ufl"
  | Sum "'o ufl" "'o ufl"
  | Product "'o ufl" "'o ufl"

text \<open>
  Forms: \<^verbatim>\<open>expr * measure\<close>, \<^verbatim>\<open>form + form\<close>, \<^verbatim>\<open>form - form\<close> and \<^verbatim>\<open>float * form\<close>.
\<close>

datatype 'o form =
    Integral "'o ufl" "'o measure"
  | FormAdd "'o form" "'o form"
  | FormSub "'o form" "'o form"
  | FormRMul real "'o form"

subsection \<open>The library calls\<close>

text \<open>The keyword arguments of \<^verbatim>\<open>generate_mesh_with_crack\<close>.\<close>

record mesh_args =
  kw_Lcrack :: real
  kw_Lx :: real
  kw_Ly :: real
  kw_lc :: real
  kw_refinement_ratio :: real
  kw_dist_min :: real
  kw_dist_max :: real
  kw_verbosity :: real

text \<open>
  The calls into the finite-element library, with their arguments, in the order the
  module uses them; \<open>SetName\<close> is the attribute write \<^verbatim>\<open>uh.name = ...\<close>, \<open>Print\<close> the
  \<^verbatim>\<open>print\<close> of the energy message, which is formatted from \<^verbatim>\<open>Lcrack\<close> and the energy.
\<close>

datatype 'o call =
    Functionspace 'o string nat "nat list"
  | Locate_entities_boundary 'o int "coords \<Rightarrow> bool"
  | Locate_dofs_topological "'o subspace" int 'o
  | Meshtags 'o int 'o int
  | LinearProblem "'o form" "'o form" "'o bc list" "string \<rightharpoonup> string"
  | Solve 'o
  | SetName 'o string
  | Form "'o form"
  | Assemble_scalar 'o
  | Print real 'o

text \<open>
  The environment: the mesh generator returns the triple \<^verbatim>\<open>(msh, mt, ft)\<close>, a library
  call returns one object; either may raise. \<open>topology_dim\<close> reads \<^verbatim>\<open>msh.topology.dim\<close>.
\<close>

record ('w, 'o, 'e) ext =
  generate_mesh_with_crack :: "mesh_args \<Rightarrow> 'w \<Rightarrow> ('e + 'o \<times> 'o \<times> 'o) \<times> 'w"
  lib :: "'o call \<Rightarrow> 'w \<Rightarrow> ('e + 'o) \<times> 'w"
  topology_dim :: "'o \<Rightarrow> int"

text \<open>One entry of the trace: the call and what it returned or raised.\<close>

datatype ('o, 'e) event =
    MeshEv mesh_args "'e + 'o \<times> 'o \<times> 'o"
  | LibEv "'o call" "'e + 'o"

text \<open>
  What a driver can raise: the exception of a library call, unchanged, or the
  \<^verbatim>\<open>ZeroDivisionError\<close> of a float division.
\<close>

datatype 'e error = External 'e | ZeroDivisionError

subsection \<open>Sequencing\<close>

text \<open>
  A computation takes the library state and returns its result or the error that ended
  it, the new library state and the events it logged.
\<close>

type_synonym ('w, 'o, 'e, 'a) run = "'w \<Rightarrow> ('e error + 'a) \<times> 'w \<times> ('o, 'e) event list"

definition ret :: "'a \<Rightarrow> ('w, 'o, 'e, 'a) run" where
  "ret x w = (Inr x, w, [])"

definition raise :: "'e error \<Rightarrow> ('w, 'o, 'e, 'a) run" where
  "raise e w = (Inl e, w, [])"

definition bind :: "('w, 'o, 'e, 'a) run \<Rightarrow> ('a \<Rightarrow> ('w, 'o, 'e, 'b) run) \<Rightarrow> ('w, 'o, 'e, 'b) run" where
  "bind m f w =
     (case m w of
        (Inl e, w1, t1) \<Rightarrow> (Inl e, w1, t1)
      | (Inr x, w1, t1) \<Rightarrow> (case f x w1 of (r, w2, t2) \<Rightarrow> (r, w2, t1 @ t2)))"

definition call_mesh :: "('w, 'o, 'e) ext \<Rightarrow> mesh_args \<Rightarrow> ('w, 'o, 'e, 'o \<times> 'o \<times> 'o) run" where
  "call_mesh ext m w =
     (case generate_mesh_with_crack ext m w of
        (Inl e, w1) \<Rightarrow> (Inl (External e), w1, [MeshEv m (Inl e)])
      | (Inr x, w1) \<Rightarrow> (Inr x, w1, [MeshEv m (Inr x)]))"

definition call :: "('w, 'o, 'e) ext \<Rightarrow> 'o call \<Rightarrow> ('w, 'o, 'e, 'o) run" where
  "call ext c w =
     (case lib ext c w of
        (Inl e, w1) \<Rightarrow> (Inl (External e), w1, [LibEv c (Inl e)])
      | (Inr x, w1) \<Rightarrow> (Inr x, w1, [LibEv c (Inr x)]))"

text \<open>Python's \<^verbatim>\<open>a / b\<close> on floats.\<close>

definition py_div :: "real \<Rightarrow> real \<Rightarrow> ('w, 'o, 'e, real) run" where
  "py_div x y = (if y = 0 then raise ZeroDivisionError else ret (x / y))"

subsection \<open>The markers\<close>

text \<open>
  \<^verbatim>\<open>np.isclose(a, b)\<close> with its default tolerances:
  \<^verbatim>\<open>absolute(a - b) <= atol + rtol * absolute(b)\<close>, \<^verbatim>\<open>rtol = 1e-05\<close>, \<^verbatim>\<open>atol = 1e-08\<close>.
\<close>

definition isclose :: "real \<Rightarrow> real \<Rightarrow> bool" where
  "isclose x y = (\<bar>x - y\<bar> \<le> 1 / 10 ^ 8 + (1 / 10 ^ 5) * \<bar>y\<bar>)"

definition bottom_no_crack :: "real \<Rightarrow> coords \<Rightarrow> bool" where
  "bottom_no_crack Lcrack x = (isclose (x 1) 0 \<and> x 0 > Lcrack)"

definition top_marker :: "real \<Rightarrow> coords \<Rightarrow> bool" where
  "top_marker Ly x = isclose (x 1) Ly"

subsection \<open>Strain, stress and the two forms\<close>

definition eps :: "'o ufl \<Rightarrow> 'o ufl" where
  "eps u = Sym (Grad u)"

definition sigma :: "real \<Rightarrow> real \<Rightarrow> 'o ufl \<Rightarrow> 'o ufl" where
  "sigma mu lmbda e =
     Sum (Product (FloatValue (2 * mu)) e)
         (Product (Product (FloatValue lmbda) (Tr e)) (Identity 2))"

definition a_bilinear :: "real \<Rightarrow> real \<Rightarrow> 'o measure \<Rightarrow> 'o ufl \<Rightarrow> 'o ufl \<Rightarrow> 'o form" where
  "a_bilinear mu lmbda dx u v = Integral (Inner (sigma mu lmbda (eps u)) (eps v)) dx"

definition L_linear :: "'o \<Rightarrow> real \<Rightarrow> 'o measure \<Rightarrow> 'o measure \<Rightarrow> 'o ufl \<Rightarrow> 'o form" where
  "L_linear msh load dx ds v =
     (let b = Constant msh [0, 0];
          f = Constant msh [0, load]
      in FormAdd (Integral (Dot b v) dx) (Integral (Dot f v) (measure_call ds 1)))"

subsection \<open>The drivers\<close>

record params =
  nu :: real
  E :: real
  load :: real
  Lx :: real
  Ly :: real
  Lcrack :: real
  lc :: real
  refinement_ratio :: real
  dist_min :: real
  dist_max :: real
  verbosity :: real
  delta_L :: real

definition petsc_options :: "string \<rightharpoonup> string" where
  "petsc_options = [''ksp_type'' \<mapsto> ''preonly'', ''pc_type'' \<mapsto> ''lu'']"

definition solve_elasticity_devoir ::
  "('w, 'o, 'e) ext \<Rightarrow> params \<Rightarrow> ('w, 'o, 'e, 'o \<times> 'o \<times> 'o ufl) run" where
  "solve_elasticity_devoir ext p =
   bind (call_mesh ext \<lparr>kw_Lcrack = Lcrack p, kw_Lx = Lx p, kw_Ly = Ly p, kw_lc = lc p,
           kw_refinement_ratio = refinement_ratio p, kw_dist_min = dist_min p,
           kw_dist_max = dist_max p, kw_verbosity = verbosity p\<rparr>) (\<lambda>(msh, mt, ft).
   bind (call ext (Functionspace msh ''Lagrange'' 1 [2])) (\<lambda>V.
   bind (call ext (Locate_entities_boundary msh (topology_dim ext msh - 1)
           (bottom_no_crack (Lcrack p)))) (\<lambda>bottom_no_crack_facets.
   bind (call ext (Locate_dofs_topological (Sub V 1) (topology_dim ext msh - 1)
           bottom_no_crack_facets)) (\<lambda>bottom_no_crack_dofs_y.
   bind (call ext (Locate_entities_boundary msh (topology_dim ext msh - 1)
           (top_marker (Ly p)))) (\<lambda>top_facets.
   bind (call ext (Locate_dofs_topological (Sub V 1) (topology_dim ext msh - 1)
           top_facets)) (\<lambda>top_dofs_y.
   let bc_bottom = Dirichletbc 0 bottom_no_crack_dofs_y (Sub V 1);
       bc_top = Dirichletbc (delta_L p) top_dofs_y (Sub V 1);
       bcs = [bc_bottom, bc_top];
       dx = Measure ''dx'' (Some msh) None None
   in
   bind (call ext (Locate_entities_boundary msh 1 (\<lambda>x. isclose (x 1) (Ly p)))) (\<lambda>top_facets.
   bind (call ext (Meshtags msh 1 top_facets 1)) (\<lambda>mt.
   let ds = Measure ''ds'' None (Some mt) None;
       u = TrialFunction V;
       v = TestFunction V
   in
   bind (py_div (E p) (2 * (1 + nu p))) (\<lambda>mu.
   bind (py_div (E p * nu p) ((1 + nu p) * (1 - 2 * nu p))) (\<lambda>lmbda.
   bind (call ext (LinearProblem (a_bilinear mu lmbda dx u v)
           (L_linear msh (load p) dx ds v) bcs petsc_options)) (\<lambda>problem.
   bind (call ext (Solve problem)) (\<lambda>uh.
   bind (call ext (SetName uh ''displacement'')) (\<lambda>_.
   bind (call ext (Form (FormSub
           (FormRMul (1 / 2) (a_bilinear mu lmbda dx (Coefficient uh) (Coefficient uh)))
           (L_linear msh (load p) dx ds (Coefficient uh))))) (\<lambda>energy_form.
   bind (call ext (Assemble_scalar energy_form)) (\<lambda>energy.
   bind (call ext (Print (Lcrack p) energy)) (\<lambda>_.
   let sigma_ufl = sigma mu lmbda (eps (Coefficient uh))
   in ret (uh, energy, sigma_ufl)))))))))))))))))"

definition solve_elasticity_devoir_force ::
  "('w, 'o, 'e) ext \<Rightarrow> params \<Rightarrow> ('w, 'o, 'e, 'o \<times> 'o \<times> 'o ufl) run" where
  "solve_elasticity_devoir_force ext p =
   bind (call_mesh ext \<lparr>kw_Lcrack = Lcrack p, kw_Lx = Lx p, kw_Ly = Ly p, kw_lc = lc p,
           kw_refinement_ratio = refinement_ratio p, kw_dist_min = dist_min p,
           kw_dist_max = dist_max p, kw_verbosity = verbosity p\<rparr>) (\<lambda>(msh, mt, ft).
   bind (call ext (Functionspace msh ''Lagrange'' 1 [2])) (\<lambda>V.
   bind (call ext (Locate_entities_boundary msh (topology_dim ext msh - 1)
           (bottom_no_crack (Lcrack p)))) (\<lambda>bottom_no_crack_facets.
   bind (call ext (Locate_dofs_topological (Sub V 1) (topology_dim ext msh - 1)
           bottom_no_crack_facets)) (\<lambda>bottom_no_crack_dofs_y.
   bind (call ext (Locate_entities_boundary msh (topology_dim ext msh - 1)
           (top_marker (Ly p)))) (\<lambda>top_facets.
   bind (call ext (Locate_dofs_topological (Sub V 1) (topology_dim ext msh - 1)
           top_facets)) (\<lambda>top_dofs_y.
   let bc_bottom = Dirichletbc 0 bottom_no_crack_dofs_y (Sub V 1);
       bc_top = Dirichletbc (delta_L p) top_dofs_y (Sub V 1);
       bcs = [bc_bottom];
       dx = Measure ''dx'' (Some msh) None None
   in
   bind (call ext (Locate_entities_boundary msh 1 (\<lambda>x. isclose (x 1) (Ly p)))) (\<lambda>top_facets.
   bind (call ext (Meshtags msh 1 top_facets 1)) (\<lambda>mt.
   let ds = Measure ''ds'' None (Some mt) None;
       u = TrialFunction V;
       v = TestFunction V
   in
   bind (py_div (E p) (2 * (1 + nu p))) (\<lambda>mu.
   bind (py_div (E p * nu p) ((1 + nu p) * (1 - 2 * nu p))) (\<lambda>lmbda.
   bind (call ext (LinearProblem (a_bilinear mu lmbda dx u v)
           (L_linear msh (load p) dx ds v) bcs petsc_options)) (\<lambda>problem.
   bind (call ext (Solve problem)) (\<lambda>uh.
   bind (call ext (SetName uh ''displacement'')) (\<lambda>_.
   bind (call ext (Form (FormSub
           (FormRMul (1 / 2) (a_bilinear mu lmbda dx (Coefficient uh) (Coefficient uh)))
           (L_linear msh (load p) dx ds (Coefficient uh))))) (\<lambda>energy_form.
   bind (call ext (Assemble_scalar energy_form)) (\<lambda>energy.
   bind (call ext (Print (Lcrack p) energy)) (\<lambda>_.
   let sigma_ufl = sigma mu lmbda (eps (Coefficient uh))
   in ret (uh, energy, sigma_ufl)))))))))))))))))"

text \<open>The default arguments of the two signatures.\<close>

definition default_params :: params where
  "default_params =
     \<lparr>nu = 4 / 10, E = 3000 * 10 ^ 6, load = 0, Lx = 10 / 100, Ly = 45 / 2 / 100,
      Lcrack = 10 / 1000, lc = 9 / 1000, refinement_ratio = 10, dist_min = 3 / 100,
      dist_max = 5 / 100, verbosity = 10, delta_L = 700 * (1 / 10 ^ 6)\<rparr>"

definition default_params_force :: params where
  "default_params_force = default_params\<lparr>delta_L := 0\<rparr>"

subsection \<open>The common call sequence of the specification\<close>

text \<open>
  The specification describes the two drivers as parametrizations of one sequence of
  library calls that differ only in the Dirichlet conditions applied. This is that
  sequence, with the choice of the conditions handed to the linear problem left as the
  parameter \<open>select\<close>.
\<close>

definition elasticity_call_sequence ::
  "('o bc \<Rightarrow> 'o bc \<Rightarrow> 'o bc list) \<Rightarrow> ('w, 'o, 'e) ext \<Rightarrow> params \<Rightarrow> ('w, 'o, 'e, 'o \<times> 'o \<times> 'o ufl) run" where
  "elasticity_call_sequence select ext p =
   bind (call_mesh ext \<lparr>kw_Lcrack = Lcrack p, kw_Lx = Lx p, kw_Ly = Ly p, kw_lc = lc p,
           kw_refinement_ratio = refinement_ratio p, kw_dist_min = dist_min p,
           kw_dist_max = dist_max p, kw_verbosity = verbosity p\<rparr>) (\<lambda>(msh, mt, ft).
   bind (call ext (Functionspace msh ''Lagrange'' 1 [2])) (\<lambda>V.
   bind (call ext (Locate_entities_boundary msh (topology_dim ext msh - 1)
           (bottom_no_crack (Lcrack p)))) (\<lambda>bottom_no_crack_facets.
   bind (call ext (Locate_dofs_topological (Sub V 1) (topology_dim ext msh - 1)
           bottom_no_crack_facets)) (\<lambda>bottom_no_crack_dofs_y.
   bind (call ext (Locate_entities_boundary msh (topology_dim ext msh - 1)
           (top_marker (Ly p)))) (\<lambda>top_facets.
   bind (call ext (Locate_dofs_topological (Sub V 1) (topology_dim ext msh - 1)
           top_facets)) (\<lambda>top_dofs_y.
   let bc_bottom = Dirichletbc 0 bottom_no_crack_dofs_y (Sub V 1);
       bc_top = Dirichletbc (delta_L p) top_dofs_y (Sub V 1);
       bcs = select bc_bottom bc_top;
       dx = Measure ''dx'' (Some msh) None None
   in
   bind (call ext (Locate_entities_boundary msh 1 (\<lambda>x. isclose (x 1) (Ly p)))) (\<lambda>top_facets.
   bind (call ext (Meshtags msh 1 top_facets 1)) (\<lambda>mt.
   let ds = Measure ''ds'' None (Some mt) None;
       u = TrialFunction V;
       v = TestFunction V
   in
   bind (py_div (E p) (2 * (1 + nu p))) (\<lambda>mu.
   bind (py_div (E p * nu p) ((1 + nu p) * (1 - 2 * nu p))) (\<lambda>lmbda.
   bind (call ext (LinearProblem (a_bilinear mu lmbda dx u v)
           (L_linear msh (load p) dx ds v) bcs petsc_options)) (\<lambda>problem.
   bind (call ext (Solve problem)) (\<lambda>uh.
   bind (call ext (SetName uh ''displacement'')) (\<lambda>_.
   bind (call ext (Form (FormSub
           (FormRMul (1 / 2) (a_bilinear mu lmbda dx (Coefficient uh) (Coefficient uh)))
           (L_linear msh (load p) dx ds (Coefficient uh))))) (\<lambda>energy_form.
   bind (call ext (Assemble_scalar energy_form)) (\<lambda>energy.
   bind (call ext (Print (Lcrack p) energy)) (\<lambda>_.
   let sigma_ufl = sigma mu lmbda (eps (Coefficient uh))
   in ret (uh, energy, sigma_ufl)))))))))))))))))"

subsection \<open>Reading a trace\<close>

text \<open>The library function an event is a call of, and the exception it raised, if any.\<close>

fun call_name :: "('o, 'e) event \<Rightarrow> string" where
  "call_name (MeshEv _ _) = ''generate_mesh_with_crack''"
| "call_name (LibEv (Functionspace _ _ _ _) _) = ''fem.functionspace''"
| "call_name (LibEv (Locate_entities_boundary _ _ _) _) = ''mesh.locate_entities_boundary''"
| "call_name (LibEv (Locate_dofs_topological _ _ _) _) = ''fem.locate_dofs_topological''"
| "call_name (LibEv (Meshtags _ _ _ _) _) = ''mesh.meshtags''"
| "call_name (LibEv (LinearProblem _ _ _ _) _) = ''fem.petsc.LinearProblem''"
| "call_name (LibEv (Solve _) _) = ''problem.solve''"
| "call_name (LibEv (SetName _ _) _) = ''uh.name''"
| "call_name (LibEv (Form _) _) = ''fem.form''"
| "call_name (LibEv (Assemble_scalar _) _) = ''fem.assemble_scalar''"
| "call_name (LibEv (Print _ _) _) = ''print''"



text \<open>The steps (a) to (f) of the specification's overview, and the step of each call.\<close>

datatype step =
    Generate_mesh
  | Build_function_space
  | Locate_boundary
  | Define_forms
  | Solve_system
  | Compute_energy

fun step_of :: "('o, 'e) event \<Rightarrow> step" where
  "step_of (MeshEv _ _) = Generate_mesh"
| "step_of (LibEv (Functionspace _ _ _ _) _) = Build_function_space"
| "step_of (LibEv (Locate_entities_boundary _ _ _) _) = Locate_boundary"
| "step_of (LibEv (Locate_dofs_topological _ _ _) _) = Locate_boundary"
| "step_of (LibEv (Meshtags _ _ _ _) _) = Define_forms"
| "step_of (LibEv (LinearProblem _ _ _ _) _) = Solve_system"
| "step_of (LibEv (Solve _) _) = Solve_system"
| "step_of (LibEv (SetName _ _) _) = Solve_system"
| "step_of (LibEv (Form _) _) = Compute_energy"
| "step_of (LibEv (Assemble_scalar _) _) = Compute_energy"
| "step_of (LibEv (Print _ _) _) = Compute_energy"

definition call_order :: "string list" where
  "call_order =
     [''generate_mesh_with_crack'', ''fem.functionspace'',
      ''mesh.locate_entities_boundary'', ''fem.locate_dofs_topological'',
      ''mesh.locate_entities_boundary'', ''fem.locate_dofs_topological'',
      ''mesh.locate_entities_boundary'', ''mesh.meshtags'',
      ''fem.petsc.LinearProblem'', ''problem.solve'', ''uh.name'',
      ''fem.form'', ''fem.assemble_scalar'', ''print'']"

definition step_order :: "step list" where
  "step_order =
     [Generate_mesh, Build_function_space,
      Locate_boundary, Locate_boundary, Locate_boundary, Locate_boundary, Locate_boundary,
      Define_forms,
      Solve_system, Solve_system, Solve_system,
      Compute_energy, Compute_energy, Compute_energy]"

subsection \<open>The meaning of the symbolic expressions\<close>

text \<open>
  The value of an expression at a point of the two-dimensional domain, over the reals: a
  scalar, a vector or a matrix (row by row). These are the textbook meanings of the
  operators of the symbolic layer; an operand of the wrong shape has no value.
\<close>

datatype tensor = Scalar real | Vector real real | Matrix real real real real

text \<open>
  The fields that stand behind the function leaves of an expression: the value and the
  gradient of each at a point.
\<close>

record 'o fields =
  field_value :: "'o ufl \<Rightarrow> coords \<Rightarrow> real \<times> real"
  field_grad :: "'o ufl \<Rightarrow> coords \<Rightarrow> real \<times> real \<times> real \<times> real"

fun is_function :: "'o ufl \<Rightarrow> bool" where
  "is_function (TrialFunction _) = True"
| "is_function (TestFunction _) = True"
| "is_function (Coefficient _) = True"
| "is_function _ = False"

fun t_sym :: "tensor \<Rightarrow> tensor option" where
  "t_sym (Matrix a b c d) = Some (Matrix a ((b + c) / 2) ((c + b) / 2) d)"
| "t_sym _ = None"

fun t_tr :: "tensor \<Rightarrow> tensor option" where
  "t_tr (Matrix a b c d) = Some (Scalar (a + d))"
| "t_tr _ = None"

fun t_inner :: "tensor \<Rightarrow> tensor \<Rightarrow> tensor option" where
  "t_inner (Scalar x) (Scalar y) = Some (Scalar (x * y))"
| "t_inner (Vector x1 x2) (Vector y1 y2) = Some (Scalar (x1 * y1 + x2 * y2))"
| "t_inner (Matrix a b c d) (Matrix a' b' c' d') = Some (Scalar (a * a' + b * b' + c * c' + d * d'))"
| "t_inner _ _ = None"

fun t_dot :: "tensor \<Rightarrow> tensor \<Rightarrow> tensor option" where
  "t_dot (Vector x1 x2) (Vector y1 y2) = Some (Scalar (x1 * y1 + x2 * y2))"
| "t_dot (Matrix a b c d) (Vector y1 y2) = Some (Vector (a * y1 + b * y2) (c * y1 + d * y2))"
| "t_dot _ _ = None"

fun t_add :: "tensor \<Rightarrow> tensor \<Rightarrow> tensor option" where
  "t_add (Scalar x) (Scalar y) = Some (Scalar (x + y))"
| "t_add (Vector x1 x2) (Vector y1 y2) = Some (Vector (x1 + y1) (x2 + y2))"
| "t_add (Matrix a b c d) (Matrix a' b' c' d') = Some (Matrix (a + a') (b + b') (c + c') (d + d'))"
| "t_add _ _ = None"

fun t_scale :: "real \<Rightarrow> tensor \<Rightarrow> tensor" where
  "t_scale k (Scalar y) = Scalar (k * y)"
| "t_scale k (Vector y1 y2) = Vector (k * y1) (k * y2)"
| "t_scale k (Matrix a b c d) = Matrix (k * a) (k * b) (k * c) (k * d)"

fun t_mul :: "tensor \<Rightarrow> tensor \<Rightarrow> tensor option" where
  "t_mul (Scalar k) t = Some (t_scale k t)"
| "t_mul t (Scalar k) = Some (t_scale k t)"
| "t_mul _ _ = None"

definition lift2 :: "(tensor \<Rightarrow> tensor \<Rightarrow> tensor option) \<Rightarrow> tensor option \<Rightarrow> tensor option \<Rightarrow> tensor option" where
  "lift2 f s t = (case s of None \<Rightarrow> None | Some x \<Rightarrow> (case t of None \<Rightarrow> None | Some y \<Rightarrow> f x y))"

fun ufl_eval :: "'o fields \<Rightarrow> 'o ufl \<Rightarrow> coords \<Rightarrow> tensor option" where
  "ufl_eval F (TrialFunction V) x =
     (case field_value F (TrialFunction V) x of (a, b) \<Rightarrow> Some (Vector a b))"
| "ufl_eval F (TestFunction V) x =
     (case field_value F (TestFunction V) x of (a, b) \<Rightarrow> Some (Vector a b))"
| "ufl_eval F (Coefficient f) x =
     (case field_value F (Coefficient f) x of (a, b) \<Rightarrow> Some (Vector a b))"
| "ufl_eval F (Constant m cs) x =
     (case cs of [c] \<Rightarrow> Some (Scalar c) | [c1, c2] \<Rightarrow> Some (Vector c1 c2) | _ \<Rightarrow> None)"
| "ufl_eval F (FloatValue r) x = Some (Scalar r)"
| "ufl_eval F (Identity n) x = (if n = 2 then Some (Matrix 1 0 0 1) else None)"
| "ufl_eval F (Grad e) x =
     (if is_function e
      then (case field_grad F e x of (a, b, c, d) \<Rightarrow> Some (Matrix a b c d))
      else None)"
| "ufl_eval F (Sym e) x = Option.bind (ufl_eval F e x) t_sym"
| "ufl_eval F (Tr e) x = Option.bind (ufl_eval F e x) t_tr"
| "ufl_eval F (Inner e1 e2) x = lift2 t_inner (ufl_eval F e1 x) (ufl_eval F e2 x)"
| "ufl_eval F (Dot e1 e2) x = lift2 t_dot (ufl_eval F e1 x) (ufl_eval F e2 x)"
| "ufl_eval F (Sum e1 e2) x = lift2 t_add (ufl_eval F e1 x) (ufl_eval F e2 x)"
| "ufl_eval F (Product e1 e2) x = lift2 t_mul (ufl_eval F e1 x) (ufl_eval F e2 x)"

text \<open>
  The value of a form. Integration belongs to the library: \<open>integrate\<close> is any functional
  that turns a measure and a pointwise integrand into a number, or fails.
\<close>

fun form_value ::
  "('o measure \<Rightarrow> (coords \<Rightarrow> tensor option) \<Rightarrow> real option) \<Rightarrow> 'o fields \<Rightarrow> 'o form \<Rightarrow> real option" where
  "form_value integrate F (Integral e m) = integrate m (ufl_eval F e)"
| "form_value integrate F (FormAdd f g) =
     (case (form_value integrate F f, form_value integrate F g) of
        (Some x, Some y) \<Rightarrow> Some (x + y) | _ \<Rightarrow> None)"
| "form_value integrate F (FormSub f g) =
     (case (form_value integrate F f, form_value integrate F g) of
        (Some x, Some y) \<Rightarrow> Some (x - y) | _ \<Rightarrow> None)"
| "form_value integrate F (FormRMul k f) =
     (case form_value integrate F f of Some x \<Rightarrow> Some (k * x) | None \<Rightarrow> None)"

subsection \<open>Three small library environments\<close>

text \<open>
  Environments on which the drivers can be run: the library state is a counter and every
  call returns the next handle; the same, with a solver that reports a singular system;
  and a library without state.
\<close>

definition ext_count :: "(nat, nat, string) ext" where
  "ext_count =
     \<lparr>generate_mesh_with_crack = (\<lambda>m w. (Inr (w, w + 1, w + 2), w + 3)),
      lib = (\<lambda>c w. (Inr w, w + 1)),
      topology_dim = (\<lambda>msh. 2)\<rparr>"

definition ext_singular :: "(nat, nat, string) ext" where
  "ext_singular =
     \<lparr>generate_mesh_with_crack = (\<lambda>m w. (Inr (w, w + 1, w + 2), w + 3)),
      lib = (\<lambda>c w. case c of Solve problem \<Rightarrow> (Inl ''singular system'', w) | _ \<Rightarrow> (Inr w, w + 1)),
      topology_dim = (\<lambda>msh. 2)\<rparr>"

definition ext_stateless :: "(nat, nat, string) ext" where
  "ext_stateless =
     \<lparr>generate_mesh_with_crack = (\<lambda>m w. (Inr (w, w + 1, w + 2), w)),
      lib = (\<lambda>c w. (Inr w, w)),
      topology_dim = (\<lambda>msh. 2)\<rparr>"

subsection \<open>Shorthand for the statements\<close>

text \<open>
  The keyword arguments handed to the mesh generator, the two Lame constants as the
  drivers compute them, and the two measures they build.
\<close>

abbreviation mesh_kwargs :: "params \<Rightarrow> mesh_args" where
  "mesh_kwargs p \<equiv>
     \<lparr>kw_Lcrack = Lcrack p, kw_Lx = Lx p, kw_Ly = Ly p, kw_lc = lc p,
      kw_refinement_ratio = refinement_ratio p, kw_dist_min = dist_min p,
      kw_dist_max = dist_max p, kw_verbosity = verbosity p\<rparr>"

abbreviation lame_mu :: "params \<Rightarrow> real" where
  "lame_mu p \<equiv> E p / (2 * (1 + nu p))"

abbreviation lame_lmbda :: "params \<Rightarrow> real" where
  "lame_lmbda p \<equiv> E p * nu p / ((1 + nu p) * (1 - 2 * nu p))"

abbreviation dx_on :: "'o \<Rightarrow> 'o measure" where
  "dx_on msh \<equiv> Measure ''dx'' (Some msh) None None"

abbreviation ds_tagged :: "'o \<Rightarrow> 'o measure" where
  "ds_tagged mt \<equiv> Measure ''ds'' None (Some mt) None"

section \<open>Properties of the drivers\<close>

subsection \<open>Stepping through a run\<close>

text \<open>
  A run of a bound computation either stops in its first part or continues in the
  second; a call either raises or returns. These rules take a run of a driver apart,
  call by call.
\<close>

lemma bind_elim:
  assumes "bind m f w = (r, w', tr)"
  obtains (fail) e where "m w = (Inl e, w', tr)" "r = Inl e"
  | (ok) x w1 t1 t2 where "m w = (Inr x, w1, t1)" "f x w1 = (r, w', t2)" "tr = t1 @ t2"
  using assms by (auto simp: bind_def split: prod.splits sum.splits)

lemma call_elim:
  assumes "call ext c w = (r, w', tr)"
  obtains (fail) e where "lib ext c w = (Inl e, w')" "r = Inl (External e)" "tr = [LibEv c (Inl e)]"
  | (ok) x where "lib ext c w = (Inr x, w')" "r = Inr x" "tr = [LibEv c (Inr x)]"
  using assms by (auto simp: call_def split: prod.splits sum.splits)

lemma call_mesh_elim:
  assumes "call_mesh ext c w = (r, w', tr)"
  obtains (fail) e where "generate_mesh_with_crack ext c w = (Inl e, w')" "r = Inl (External e)" "tr = [MeshEv c (Inl e)]"
  | (ok) x where "generate_mesh_with_crack ext c w = (Inr x, w')" "r = Inr x" "tr = [MeshEv c (Inr x)]"
  using assms by (auto simp: call_mesh_def split: prod.splits sum.splits)

lemma py_div_elim:
  assumes "py_div x y w = (r, w', tr)"
  obtains (fail) "y = 0" "r = Inl ZeroDivisionError" "tr = []" "w' = w"
  | (ok) "y \<noteq> 0" "r = Inr (x / y)" "tr = []" "w' = w"
  using assms by (auto simp: py_div_def ret_def raise_def split: if_splits)

lemma ret_elim:
  assumes "ret x w = (r, w', tr)"
  obtains "r = Inr x" "tr = []" "w' = w"
  using assms by (auto simp: ret_def)

lemmas run_elims = bind_elim call_elim call_mesh_elim py_div_elim ret_elim

subsection \<open>Both drivers are instances of the common sequence\<close>

lemma devoir_eq_seq:
  "solve_elasticity_devoir ext p = elasticity_call_sequence (\<lambda>bc_bottom bc_top. [bc_bottom, bc_top]) ext p"
  by (simp add: solve_elasticity_devoir_def elasticity_call_sequence_def)

lemma force_eq_seq:
  "solve_elasticity_devoir_force ext p = elasticity_call_sequence (\<lambda>bc_bottom bc_top. [bc_bottom]) ext p"
  by (simp add: solve_elasticity_devoir_force_def elasticity_call_sequence_def)


subsection \<open>The shape of a run of the common sequence\<close>


lemma seq_success:
  assumes "elasticity_call_sequence sel ext p w = (Inr result, w', tr)"
  shows "\<exists>msh mt ft V bf bd tf td tf2 mt2 problem uh x1 eform energy x2.
    tr = [MeshEv (mesh_kwargs p) (Inr (msh, mt, ft)),
          LibEv (Functionspace msh ''Lagrange'' 1 [2]) (Inr V),
          LibEv (Locate_entities_boundary msh (topology_dim ext msh - 1) (bottom_no_crack (Lcrack p))) (Inr bf),
          LibEv (Locate_dofs_topological (Sub V 1) (topology_dim ext msh - 1) bf) (Inr bd),
          LibEv (Locate_entities_boundary msh (topology_dim ext msh - 1) (top_marker (Ly p))) (Inr tf),
          LibEv (Locate_dofs_topological (Sub V 1) (topology_dim ext msh - 1) tf) (Inr td),
          LibEv (Locate_entities_boundary msh 1 (\<lambda>x. isclose (x 1) (Ly p))) (Inr tf2),
          LibEv (Meshtags msh 1 tf2 1) (Inr mt2),
          LibEv (LinearProblem
             (a_bilinear (lame_mu p) (lame_lmbda p) (dx_on msh) (TrialFunction V) (TestFunction V))
             (L_linear msh (load p) (dx_on msh) (ds_tagged mt2) (TestFunction V))
             (sel (Dirichletbc 0 bd (Sub V 1)) (Dirichletbc (delta_L p) td (Sub V 1)))
             petsc_options) (Inr problem),
          LibEv (Solve problem) (Inr uh),
          LibEv (SetName uh ''displacement'') (Inr x1),
          LibEv (Form (FormSub
             (FormRMul (1 / 2)
                (a_bilinear (lame_mu p) (lame_lmbda p) (dx_on msh) (Coefficient uh) (Coefficient uh)))
             (L_linear msh (load p) (dx_on msh) (ds_tagged mt2) (Coefficient uh)))) (Inr eform),
          LibEv (Assemble_scalar eform) (Inr energy),
          LibEv (Print (Lcrack p) energy) (Inr x2)] \<and>
    result = (uh, energy, sigma (lame_mu p) (lame_lmbda p) (eps (Coefficient uh))) \<and>
    nu p \<noteq> - 1 \<and> nu p \<noteq> 1 / 2"
  using assms unfolding elasticity_call_sequence_def Let_def
  apply (elim run_elims)
  apply (auto elim!: run_elims)
  done

lemma seq_order:
  assumes "elasticity_call_sequence sel ext p w = (r, w', tr)"
  shows "prefix (map call_name tr) call_order \<and> prefix (map step_of tr) step_order"
  using assms unfolding elasticity_call_sequence_def Let_def
  apply (elim run_elims)
  apply (auto elim!: run_elims simp: call_order_def step_order_def)
  done






lemma either_driver_is_seq:
  assumes "solve_elasticity_devoir ext p w = out \<or> solve_elasticity_devoir_force ext p w = out"
  obtains sel where "elasticity_call_sequence sel ext p w = out"
  using assms by (auto simp: devoir_eq_seq force_eq_seq)

subsection \<open>Runs on the small environments\<close>

lemmas eval_defs = Let_def bind_def call_def call_mesh_def py_div_def ret_def raise_def
  ext_count_def ext_singular_def ext_stateless_def default_params_def default_params_force_def

lemma devoir_run_default: "\<exists>res tr. solve_elasticity_devoir ext_count default_params 0 = (Inr res, 16, tr)"
  by (simp add: solve_elasticity_devoir_def eval_defs)

lemma force_run_default: "\<exists>res tr. solve_elasticity_devoir_force ext_count default_params_force 0 = (Inr res, 16, tr)"
  by (simp add: solve_elasticity_devoir_force_def eval_defs)




subsection \<open>The pointwise value of the elastic energy density\<close>

lemma stress_inner_swap:
  "lift2 t_inner (lift2 t_add (lift2 t_mul (Some (Scalar k)) e1)
       (lift2 t_mul (lift2 t_mul (Some (Scalar l)) (Option.bind e1 t_tr)) (Some (Matrix 1 0 0 1)))) e2
   = lift2 t_inner (lift2 t_add (lift2 t_mul (Some (Scalar k)) e2)
       (lift2 t_mul (lift2 t_mul (Some (Scalar l)) (Option.bind e2 t_tr)) (Some (Matrix 1 0 0 1)))) e1"
proof (cases e1)
  case None
  then show ?thesis by (cases e2) (simp_all add: lift2_def split: option.splits)
next
  case e1: (Some s)
  show ?thesis
  proof (cases e2)
    case None
    then show ?thesis by (simp add: lift2_def split: option.splits)
  next
    case e2: (Some t)
    show ?thesis
      unfolding e1 e2 by (cases s; cases t; simp add: lift2_def algebra_simps)
  qed
qed

lemma integrand_symmetric:
  "ufl_eval F (Inner (sigma mu lmbda e1) e2) x = ufl_eval F (Inner (sigma mu lmbda e2) e1) x"
  by (simp add: sigma_def stress_inner_swap)


lemma a_integrand_functions:
  "ufl_eval F (Inner (sigma mu lmbda (eps (Coefficient f))) (eps (Coefficient g))) x =
    (case field_grad F (Coefficient f) x of (a, b, c, d) \<Rightarrow>
     case field_grad F (Coefficient g) x of (a', b', c', d') \<Rightarrow>
       Some (Scalar (2 * mu * (a * a' + 2 * (((b + c) / 2) * ((b' + c') / 2)) + d * d')
                     + lmbda * (a + d) * (a' + d'))))"
  by (simp add: sigma_def eps_def lift2_def split: prod.splits) (simp add: field_simps)

section \<open>The claims\<close>

text \<open>
  C1. The two drivers perform the same sequence of library calls and differ only in the
  Dirichlet conditions handed to the linear problem: each is the common call sequence,
  \<^verbatim>\<open>solve_elasticity_devoir\<close> with the list \<^verbatim>\<open>[bc_bottom, bc_top]\<close> and
  \<^verbatim>\<open>solve_elasticity_devoir_force\<close> with the list \<^verbatim>\<open>[bc_bottom]\<close>, for every
  environment, every set of arguments and every library state.
\<close>

theorem drivers_share_call_sequence:
  "solve_elasticity_devoir ext p =
     elasticity_call_sequence (\<lambda>bc_bottom bc_top. [bc_bottom, bc_top]) ext p
   \<and> solve_elasticity_devoir_force ext p =
     elasticity_call_sequence (\<lambda>bc_bottom bc_top. [bc_bottom]) ext p"
  by (simp add: devoir_eq_seq force_eq_seq)


text \<open>
  C3. In both drivers the returned \<^verbatim>\<open>energy\<close> is the potential energy of the solved
  displacement. A run that returns \<^verbatim>\<open>(uh, energy, sigma_ufl)\<close> ends with these six calls:
  the linear problem is built from \<^verbatim>\<open>a(u, v)\<close> and \<^verbatim>\<open>L(v)\<close>, its \<^verbatim>\<open>solve\<close> returns
  \<^verbatim>\<open>uh\<close>, the form \<^verbatim>\<open>0.5 * a(uh, uh) - L(uh)\<close> is compiled, and \<^verbatim>\<open>energy\<close> is what
  \<^verbatim>\<open>assemble_scalar\<close> returns for it. The forms \<^verbatim>\<open>a\<close> and \<^verbatim>\<open>L\<close> of the energy are those
  of the linear problem (same constants, mesh and measures), and the value of the energy
  form is half the value of \<^verbatim>\<open>a(uh, uh)\<close> minus the value of \<^verbatim>\<open>L(uh)\<close>.
\<close>

theorem energy_is_potential_energy:
  assumes run: "solve_elasticity_devoir ext p w = (Inr (uh, energy, sigma_ufl), w', tr)
     \<or> solve_elasticity_devoir_force ext p w = (Inr (uh, energy, sigma_ufl), w', tr)"
  shows "\<exists>pre msh mt0 ft V tf2 mt aF LF bcs problem x1 eform x2.
    tr = pre @
        [LibEv (LinearProblem aF LF bcs petsc_options) (Inr problem),
         LibEv (Solve problem) (Inr uh),
         LibEv (SetName uh ''displacement'') (Inr x1),
         LibEv (Form (FormSub
            (FormRMul (1 / 2)
               (a_bilinear (lame_mu p) (lame_lmbda p) (dx_on msh) (Coefficient uh) (Coefficient uh)))
            (L_linear msh (load p) (dx_on msh) (ds_tagged mt) (Coefficient uh)))) (Inr eform),
         LibEv (Assemble_scalar eform) (Inr energy),
         LibEv (Print (Lcrack p) energy) (Inr x2)]
    \<and> aF = a_bilinear (lame_mu p) (lame_lmbda p) (dx_on msh) (TrialFunction V) (TestFunction V)
    \<and> LF = L_linear msh (load p) (dx_on msh) (ds_tagged mt) (TestFunction V)
    \<and> MeshEv (mesh_kwargs p) (Inr (msh, mt0, ft)) \<in> set pre
    \<and> LibEv (Functionspace msh ''Lagrange'' 1 [2]) (Inr V) \<in> set pre
    \<and> LibEv (Meshtags msh 1 tf2 1) (Inr mt) \<in> set pre
    \<and> form_value integrate F (FormSub
            (FormRMul (1 / 2)
               (a_bilinear (lame_mu p) (lame_lmbda p) (dx_on msh) (Coefficient uh) (Coefficient uh)))
            (L_linear msh (load p) (dx_on msh) (ds_tagged mt) (Coefficient uh)))
        = (case (form_value integrate F
                   (a_bilinear (lame_mu p) (lame_lmbda p) (dx_on msh) (Coefficient uh) (Coefficient uh)),
                 form_value integrate F
                   (L_linear msh (load p) (dx_on msh) (ds_tagged mt) (Coefficient uh))) of
             (Some x, Some y) \<Rightarrow> Some (1 / 2 * x - y)
           | _ \<Rightarrow> None)"
proof -
  from run obtain sel where
    "elasticity_call_sequence sel ext p w = (Inr (uh, energy, sigma_ufl), w', tr)"
    by (rule either_driver_is_seq)
  from seq_success[OF this] obtain msh mt0 ft V bf bd tf td tf2 mt problem x1 eform x2 where
    tr: "tr = [MeshEv (mesh_kwargs p) (Inr (msh, mt0, ft)),
          LibEv (Functionspace msh ''Lagrange'' 1 [2]) (Inr V),
          LibEv (Locate_entities_boundary msh (topology_dim ext msh - 1) (bottom_no_crack (Lcrack p))) (Inr bf),
          LibEv (Locate_dofs_topological (Sub V 1) (topology_dim ext msh - 1) bf) (Inr bd),
          LibEv (Locate_entities_boundary msh (topology_dim ext msh - 1) (top_marker (Ly p))) (Inr tf),
          LibEv (Locate_dofs_topological (Sub V 1) (topology_dim ext msh - 1) tf) (Inr td),
          LibEv (Locate_entities_boundary msh 1 (\<lambda>x. isclose (x 1) (Ly p))) (Inr tf2),
          LibEv (Meshtags msh 1 tf2 1) (Inr mt)] @
         [LibEv (LinearProblem
             (a_bilinear (lame_mu p) (lame_lmbda p) (dx_on msh) (TrialFunction V) (TestFunction V))
             (L_linear msh (load p) (dx_on msh) (ds_tagged mt) (TestFunction V))
             (sel (Dirichletbc 0 bd (Sub V 1)) (Dirichletbc (delta_L p) td (Sub V 1)))
             petsc_options) (Inr problem),
          LibEv (Solve problem) (Inr uh),
          LibEv (SetName uh ''displacement'') (Inr x1),
          LibEv (Form (FormSub
             (FormRMul (1 / 2)
                (a_bilinear (lame_mu p) (lame_lmbda p) (dx_on msh) (Coefficient uh) (Coefficient uh)))
             (L_linear msh (load p) (dx_on msh) (ds_tagged mt) (Coefficient uh)))) (Inr eform),
          LibEv (Assemble_scalar eform) (Inr energy),
          LibEv (Print (Lcrack p) energy) (Inr x2)]"
    by auto
  have val: "form_value integrate F (FormSub (FormRMul (1 / 2) A) B)
        = (case (form_value integrate F A, form_value integrate F B) of
             (Some x, Some y) \<Rightarrow> Some (1 / 2 * x - y) | _ \<Rightarrow> None)" for A B :: "'b form"
    by (simp split: option.splits)
  show ?thesis
    apply (intro exI conjI)
          apply (rule tr)
         apply (rule refl)
        apply (rule refl)
       apply simp
      apply simp
     apply simp
    apply (rule val)
    done
qed

theorem energy_is_potential_energy_witness:
  "\<exists>uh energy sigma_ufl w' tr pre msh mt aF LF bcs problem x1 eform x2.
    solve_elasticity_devoir ext_count default_params 0 = (Inr (uh, energy, sigma_ufl), w', tr)
    \<and> tr = pre @
        [LibEv (LinearProblem aF LF bcs petsc_options) (Inr problem),
         LibEv (Solve problem) (Inr uh),
         LibEv (SetName uh ''displacement'') (Inr x1),
         LibEv (Form (FormSub
            (FormRMul (1 / 2)
               (a_bilinear (lame_mu default_params) (lame_lmbda default_params) (dx_on msh)
                  (Coefficient uh) (Coefficient uh)))
            (L_linear msh (load default_params) (dx_on msh) (ds_tagged mt) (Coefficient uh))))
           (Inr eform),
         LibEv (Assemble_scalar eform) (Inr energy),
         LibEv (Print (Lcrack default_params) energy) (Inr x2)]"
proof -
  obtain res tr where "solve_elasticity_devoir ext_count default_params 0 = (Inr res, 16, tr)"
    using devoir_run_default by blast
  then obtain uh energy sg where
    run: "solve_elasticity_devoir ext_count default_params 0 = (Inr (uh, energy, sg), 16, tr)"
    by (cases res) auto
  from energy_is_potential_energy[OF disjI1[OF run], where integrate = "\<lambda>m f. None" and F = "\<lparr>field_value = (\<lambda>u x. (0, 0)), field_grad = (\<lambda>u x. (0, 0, 0, 0))\<rparr>"]
  obtain pre msh mt aF LF bcs problem x1 eform x2 where
    "tr = pre @
        [LibEv (LinearProblem aF LF bcs petsc_options) (Inr problem),
         LibEv (Solve problem) (Inr uh),
         LibEv (SetName uh ''displacement'') (Inr x1),
         LibEv (Form (FormSub
            (FormRMul (1 / 2)
               (a_bilinear (lame_mu default_params) (lame_lmbda default_params) (dx_on msh)
                  (Coefficient uh) (Coefficient uh)))
            (L_linear msh (load default_params) (dx_on msh) (ds_tagged mt) (Coefficient uh))))
           (Inr eform),
         LibEv (Assemble_scalar eform) (Inr energy),
         LibEv (Print (Lcrack default_params) energy) (Inr x2)]"
    by blast
  with run show ?thesis by blast
qed







text \<open>
  C7. Each driver makes its library calls in the order (a) mesh generation, (b) function
  space, (c) location of the boundary entities and dofs, (d) the tags for the forms,
  (e) linear problem and solve, (f) energy. The calls of every run are an initial part
  of that order, so no call is made out of turn; a run that returns made all of them,
  so no step is skipped; and the function space is built on the mesh the generator
  returned. Building the forms themselves is pure: they reach the trace as the arguments
  of the linear problem.
\<close>

theorem calls_in_order:
  assumes run: "solve_elasticity_devoir ext p w = (r, w', tr)
     \<or> solve_elasticity_devoir_force ext p w = (r, w', tr)"
  shows "prefix (map call_name tr) call_order
    \<and> prefix (map step_of tr) step_order
    \<and> (\<forall>result. r = Inr result \<longrightarrow>
          map call_name tr = call_order
          \<and> map step_of tr = step_order
          \<and> (\<exists>msh mt ft V rest.
                tr = MeshEv (mesh_kwargs p) (Inr (msh, mt, ft))
                   # LibEv (Functionspace msh ''Lagrange'' 1 [2]) (Inr V) # rest))"
proof -
  from run obtain sel where seq: "elasticity_call_sequence sel ext p w = (r, w', tr)"
    by (rule either_driver_is_seq)
  have "map call_name tr = call_order \<and> map step_of tr = step_order
        \<and> (\<exists>msh mt ft V rest.
              tr = MeshEv (mesh_kwargs p) (Inr (msh, mt, ft))
                 # LibEv (Functionspace msh ''Lagrange'' 1 [2]) (Inr V) # rest)"
    if "r = Inr result" for result
    using seq_success[OF seq[unfolded that]]
    by (auto simp: call_order_def step_order_def)
  with seq_order[OF seq] show ?thesis
    by blast
qed

theorem calls_in_order_witness:
  "\<exists>result w' tr.
    solve_elasticity_devoir ext_count default_params 0 = (Inr result, w', tr)
    \<and> map call_name tr = call_order \<and> map step_of tr = step_order"
proof -
  obtain res tr where
    run: "solve_elasticity_devoir ext_count default_params 0 = (Inr res, 16, tr)"
    using devoir_run_default by blast
  note calls_in_order[OF disjI1[OF run], THEN conjunct2, THEN conjunct2, THEN spec, of res,
      THEN mp, OF refl]
  then have "map call_name tr = call_order" and "map step_of tr = step_order"
    by blast+
  with run show ?thesis
    by (intro exI[of _ res] exI[of _ 16] exI[of _ tr]) simp
qed






text \<open>
  C10. The bilinear form of the drivers is symmetric: for all expressions \<open>u\<close> and \<open>v\<close>,
  all fields behind them and every integration functional, \<open>a(u, v)\<close> and \<open>a(v, u)\<close>
  have the same value, because their integrands agree at every point. For two functions
  the integrand is \<open>2 mu eps(u) : eps(v) + lmbda tr(eps(u)) tr(eps(v))\<close>.
\<close>

theorem a_bilinear_symmetric:
  "form_value integrate F (a_bilinear mu lmbda dx u v)
     = form_value integrate F (a_bilinear mu lmbda dx v u)
   \<and> ufl_eval F (Inner (sigma mu lmbda (eps u)) (eps v)) x
     = ufl_eval F (Inner (sigma mu lmbda (eps v)) (eps u)) x
   \<and> ufl_eval F (Inner (sigma mu lmbda (eps (Coefficient f))) (eps (Coefficient g))) x =
      (case field_grad F (Coefficient f) x of (a, b, c, d) \<Rightarrow>
       case field_grad F (Coefficient g) x of (a', b', c', d') \<Rightarrow>
         Some (Scalar (2 * mu * (a * a' + 2 * (((b + c) / 2) * ((b' + c') / 2)) + d * d')
                       + lmbda * (a + d) * (a' + d'))))"
proof -
  have "ufl_eval F (Inner (sigma mu lmbda (eps u)) (eps v))
      = ufl_eval F (Inner (sigma mu lmbda (eps v)) (eps u))"
    by (rule ext) (rule integrand_symmetric)
  then have "form_value integrate F (a_bilinear mu lmbda dx u v)
     = form_value integrate F (a_bilinear mu lmbda dx v u)"
    by (simp add: a_bilinear_def)
  with integrand_symmetric[of F mu lmbda "eps u" "eps v" x] a_integrand_functions[of F mu lmbda f g x]
  show ?thesis by blast
qed

end
